theory Spec2Isabelle
  imports Complex_Main "HOL-Library.AList"
begin

section \<open>Data model of path\_time\_neighborhood.cc\<close>

text \<open>
  The protobuf messages the file writes and reads. Doubles are modelled as reals (rounding
  is not modelled). A default-constructed message has every number 0 and every string empty.
  The point's fields are prefixed with \<open>pt_\<close>, since its \<open>obstacle_id\<close> would clash with
  the region's.
\<close>

record PathTimePoint =
  pt_s :: real
  pt_t :: real
  pt_obstacle_id :: string

record PathTimeObstacle =
  obstacle_id :: string
  bottom_left :: PathTimePoint
  upper_left :: PathTimePoint
  bottom_right :: PathTimePoint
  upper_right :: PathTimePoint
  path_lower :: real
  path_upper :: real
  time_lower :: real
  time_upper :: real

record SLBoundary =
  start_s :: real
  end_s :: real
  start_l :: real
  end_l :: real

text \<open>Of a reference-path point only the heading is read.\<close>

record PathPoint =
  theta :: real

definition PathTimePoint_default :: PathTimePoint where
  "PathTimePoint_default = \<lparr>pt_s = 0, pt_t = 0, pt_obstacle_id = []\<rparr>"

definition PathTimeObstacle_default :: PathTimeObstacle where
  "PathTimeObstacle_default =
     \<lparr>obstacle_id = [],
      bottom_left = PathTimePoint_default, upper_left = PathTimePoint_default,
      bottom_right = PathTimePoint_default, upper_right = PathTimePoint_default,
      path_lower = 0, path_upper = 0, time_lower = 0, time_upper = 0\<rparr>"

text \<open>
  The collaborators whose code is in other files are parameters. An obstacle carries its
  identifier, the size of its predicted trajectory, its two geometric methods and the
  perception velocity; the types of a trajectory point and of a bounding box stay abstract.
  The identifier field is \<open>Id\<close> in the source; \<open>ob_Id\<close> here, since \<open>Id\<close> is the identity
  relation of HOL.
\<close>

record ('pt, 'box) Obstacle =
  ob_Id :: string
  trajectory_point_size :: nat
  GetPointAtTime :: "real \<Rightarrow> 'pt"
  GetBoundingBox :: "'pt \<Rightarrow> 'box"
  velocity_x :: real
  velocity_y :: real

record 'box ReferenceLine =
  GetSLBoundary :: "'box \<Rightarrow> SLBoundary"

text \<open>
  The constants of lattice\_params.h and the static matcher
  \<open>ReferenceLineMatcher::MatchToReferenceLine\<close>, both declared outside this file.
\<close>

record lattice_params =
  planned_trajectory_time :: real
  planned_trajectory_horizon :: real
  trajectory_time_resolution :: real
  lateral_enter_lane_thred :: real
  MatchToReferenceLine :: "PathPoint list \<Rightarrow> real \<Rightarrow> PathPoint"

text \<open>
  The map member \<open>path_time_obstacle_map_\<close> is an association list: lookups go through
  \<open>map_of\<close>, an insertion appends, and the iteration order is the list order (the source
  leaves it to the container). The object has two members, \<open>init_s_\<close> and the map.
\<close>

type_synonym obstacle_map = "(string \<times> PathTimeObstacle) list"

record PathTimeNeighborhood =
  init_s :: "real \<times> real \<times> real"
  path_time_obstacle_map :: obstacle_map

text \<open>
  \<open>mutate k f m\<close> is a statement \<open>f(m[k])\<close>: \<open>operator[]\<close> default-constructs the entry
  when the key is absent, and the setter \<open>f\<close> then changes the entry in place.
\<close>

definition mutate :: "string \<Rightarrow> (PathTimeObstacle \<Rightarrow> PathTimeObstacle) \<Rightarrow> obstacle_map \<Rightarrow> obstacle_map" where
  "mutate k f m =
     (case map_of m k of
        None \<Rightarrow> AList.update k (f PathTimeObstacle_default) m
      | Some r \<Rightarrow> AList.update k (f r) m)"

section \<open>The operations\<close>

definition SetPathTimePoint :: "string \<Rightarrow> real \<Rightarrow> real \<Rightarrow> PathTimePoint" where
  "SetPathTimePoint obstacle_id' s t =
     (let p0 = PathTimePoint_default;
          p1 = p0\<lparr>pt_s := s\<rparr>;
          p2 = p1\<lparr>pt_t := t\<rparr>;
          p3 = p2\<lparr>pt_obstacle_id := obstacle_id'\<rparr>
      in p3)"

definition SpeedOnReferenceLine ::
  "lattice_params \<Rightarrow> PathPoint list \<Rightarrow> ('pt, 'box) Obstacle \<Rightarrow> SLBoundary \<Rightarrow> real" where
  "SpeedOnReferenceLine L discretized_ref_points obstacle sl_boundary =
     (let obstacle_point_on_ref_line =
            MatchToReferenceLine L discretized_ref_points (start_s sl_boundary);
          ref_theta = theta obstacle_point_on_ref_line;
          v = cos ref_theta * velocity_x obstacle + sin ref_theta * velocity_y obstacle
      in v)"

text \<open>
  One pass through the body of the \<open>while\<close> loop (lines 59 to 108). It leaves in one of
  three ways: by \<open>break\<close>, by \<open>continue\<close> after adding the time step, or by reaching the
  end of the body with the map updated and the time as it was.
\<close>

datatype body_exit = Break | Continue real | Fallthrough obstacle_map

definition loop_body ::
  "lattice_params \<Rightarrow> real \<times> real \<times> real \<Rightarrow> 'box ReferenceLine \<Rightarrow> PathPoint list \<Rightarrow>
   ('pt, 'box) Obstacle \<Rightarrow> real \<Rightarrow> obstacle_map \<Rightarrow> body_exit" where
  "loop_body L init_s' reference_line discretized_ref_points obstacle relative_time m =
     (let point = GetPointAtTime obstacle relative_time;
          box = GetBoundingBox obstacle point;
          sl_boundary = GetSLBoundary reference_line box
      in
      if end_s sl_boundary < 0
         \<or> start_s sl_boundary > fst init_s' + planned_trajectory_horizon L
         \<or> (\<bar>start_l sl_boundary\<bar> > lateral_enter_lane_thred L
             \<and> \<bar>end_l sl_boundary\<bar> > lateral_enter_lane_thred L)
      then
        (if map_of m (ob_Id obstacle) \<noteq> None then Break
         else Continue (relative_time + trajectory_time_resolution L))
      else
        (let v = SpeedOnReferenceLine L discretized_ref_points obstacle sl_boundary;
             m1 = (if map_of m (ob_Id obstacle) = None then
                     (let ma = mutate (ob_Id obstacle)
                                 (\<lambda>r. r\<lparr>obstacle_id := ob_Id obstacle\<rparr>) m;
                          mb = mutate (ob_Id obstacle)
                                 (\<lambda>r. r\<lparr>bottom_left := SetPathTimePoint (ob_Id obstacle)
                                          (start_s sl_boundary) relative_time\<rparr>) ma;
                          mc = mutate (ob_Id obstacle)
                                 (\<lambda>r. r\<lparr>upper_left := SetPathTimePoint (ob_Id obstacle)
                                          (end_s sl_boundary) relative_time\<rparr>) mb
                      in mc)
                   else m);
             m2 = mutate (ob_Id obstacle)
                    (\<lambda>r. r\<lparr>bottom_right := SetPathTimePoint (ob_Id obstacle)
                             (start_s sl_boundary) relative_time\<rparr>) m1;
             m3 = mutate (ob_Id obstacle)
                    (\<lambda>r. r\<lparr>upper_right := SetPathTimePoint (ob_Id obstacle)
                             (end_s sl_boundary) relative_time\<rparr>) m2
         in Fallthrough m3))"

text \<open>
  The \<open>while\<close> loop of lines 58 to 109. It may run forever, so its result is an option:
  \<open>None\<close> is a loop that never leaves. On leaving it gives the time and the map.
\<close>

partial_function (option) sample_loop ::
  "lattice_params \<Rightarrow> real \<times> real \<times> real \<Rightarrow> 'box ReferenceLine \<Rightarrow> PathPoint list \<Rightarrow>
   ('pt, 'box) Obstacle \<Rightarrow> real \<Rightarrow> obstacle_map \<Rightarrow> (real \<times> obstacle_map) option" where
  "sample_loop L init_s' reference_line discretized_ref_points obstacle relative_time m =
     (if relative_time < planned_trajectory_time L then
        (case loop_body L init_s' reference_line discretized_ref_points obstacle relative_time m of
           Break \<Rightarrow> Some (relative_time, m)
         | Continue relative_time' \<Rightarrow>
             sample_loop L init_s' reference_line discretized_ref_points obstacle relative_time' m
         | Fallthrough m' \<Rightarrow>
             sample_loop L init_s' reference_line discretized_ref_points obstacle relative_time m')
      else Some (relative_time, m))"

text \<open>
  The state of the same loop after at most \<open>n\<close> passes through its body: the intermediate
  states of a run, whether or not the run ever leaves the loop.
\<close>

fun sample_loop_steps ::
  "lattice_params \<Rightarrow> real \<times> real \<times> real \<Rightarrow> 'box ReferenceLine \<Rightarrow> PathPoint list \<Rightarrow>
   ('pt, 'box) Obstacle \<Rightarrow> nat \<Rightarrow> real \<Rightarrow> obstacle_map \<Rightarrow> real \<times> obstacle_map" where
  "sample_loop_steps L init_s' reference_line discretized_ref_points obstacle 0 relative_time m =
     (relative_time, m)"
| "sample_loop_steps L init_s' reference_line discretized_ref_points obstacle (Suc n) relative_time m =
     (if relative_time < planned_trajectory_time L then
        (case loop_body L init_s' reference_line discretized_ref_points obstacle relative_time m of
           Break \<Rightarrow> (relative_time, m)
         | Continue relative_time' \<Rightarrow>
             sample_loop_steps L init_s' reference_line discretized_ref_points obstacle n relative_time' m
         | Fallthrough m' \<Rightarrow>
             sample_loop_steps L init_s' reference_line discretized_ref_points obstacle n relative_time m')
      else (relative_time, m))"

text \<open>
  The body of the \<open>for\<close> loop over the obstacles (lines 53 to 110): the test of the
  trajectory size, the sampling loop from time 0, and the addition of line 110, whose
  result no later statement reads.
\<close>

definition process_obstacle ::
  "lattice_params \<Rightarrow> real \<times> real \<times> real \<Rightarrow> 'box ReferenceLine \<Rightarrow> PathPoint list \<Rightarrow>
   ('pt, 'box) Obstacle \<Rightarrow> obstacle_map \<Rightarrow> obstacle_map option" where
  "process_obstacle L init_s' reference_line discretized_ref_points obstacle m =
     (if trajectory_point_size obstacle = 0 then Some m
      else
        (case sample_loop L init_s' reference_line discretized_ref_points obstacle 0 m of
           None \<Rightarrow> None
         | Some (relative_time, m') \<Rightarrow>
             (let relative_time' = relative_time + trajectory_time_resolution L in Some m')))"

fun obstacles_loop ::
  "lattice_params \<Rightarrow> real \<times> real \<times> real \<Rightarrow> 'box ReferenceLine \<Rightarrow> PathPoint list \<Rightarrow>
   ('pt, 'box) Obstacle list \<Rightarrow> obstacle_map \<Rightarrow> obstacle_map option" where
  "obstacles_loop L init_s' reference_line discretized_ref_points [] m = Some m"
| "obstacles_loop L init_s' reference_line discretized_ref_points (obstacle # obstacles) m =
     (case process_obstacle L init_s' reference_line discretized_ref_points obstacle m of
        None \<Rightarrow> None
      | Some m' \<Rightarrow> obstacles_loop L init_s' reference_line discretized_ref_points obstacles m')"

text \<open>The body of the second loop (lines 114 to 132): the four scalar bounds of one region.\<close>

definition finalize_bounds :: "PathTimeObstacle \<Rightarrow> PathTimeObstacle" where
  "finalize_bounds r =
     (let s_upper = max (pt_s (bottom_right r)) (pt_s (upper_right r));
          s_lower = min (pt_s (bottom_left r)) (pt_s (upper_left r));
          r1 = r\<lparr>path_lower := s_lower\<rparr>;
          r2 = r1\<lparr>path_upper := s_upper\<rparr>;
          t_upper = max (pt_t (bottom_right r2)) (pt_t (upper_right r2));
          t_lower = min (pt_t (bottom_left r2)) (pt_t (upper_left r2));
          r3 = r2\<lparr>time_lower := t_lower\<rparr>;
          r4 = r3\<lparr>time_upper := t_upper\<rparr>
      in r4)"

definition SetupObstacles ::
  "lattice_params \<Rightarrow> real \<times> real \<times> real \<Rightarrow> 'box ReferenceLine \<Rightarrow> PathPoint list \<Rightarrow>
   ('pt, 'box) Obstacle list \<Rightarrow> obstacle_map \<Rightarrow> obstacle_map option" where
  "SetupObstacles L init_s' reference_line discretized_ref_points obstacles m =
     (case obstacles_loop L init_s' reference_line discretized_ref_points obstacles m of
        None \<Rightarrow> None
      | Some m' \<Rightarrow> Some (map (\<lambda>(k, r). (k, finalize_bounds r)) m'))"

text \<open>
  The constructor: it stores \<open>init_s\<close> and runs the build on the empty map. The frame is
  represented by the list its \<open>obstacles()\<close> returns.
\<close>

definition PathTimeNeighborhood_ctor ::
  "lattice_params \<Rightarrow> ('pt, 'box) Obstacle list \<Rightarrow> real \<times> real \<times> real \<Rightarrow> 'box ReferenceLine \<Rightarrow>
   PathPoint list \<Rightarrow> PathTimeNeighborhood option" where
  "PathTimeNeighborhood_ctor L frame_obstacles init_s' reference_line discretized_ref_points =
     (case SetupObstacles L init_s' reference_line discretized_ref_points frame_obstacles [] of
        None \<Rightarrow> None
      | Some m \<Rightarrow> Some \<lparr>init_s = init_s', path_time_obstacle_map = m\<rparr>)"

definition GetPathTimeObstacles :: "PathTimeNeighborhood \<Rightarrow> PathTimeObstacle list" where
  "GetPathTimeObstacles this = map snd (path_time_obstacle_map this)"

text \<open>
  \<open>GetPathTimeObstacle\<close> is not a const method and reads the entry through \<open>operator[]\<close>,
  so the model returns the object as well: the flag, the value of the out parameter, and
  the object after the call.
\<close>

definition GetPathTimeObstacle ::
  "string \<Rightarrow> PathTimeObstacle \<Rightarrow> PathTimeNeighborhood \<Rightarrow>
   bool \<times> PathTimeObstacle \<times> PathTimeNeighborhood" where
  "GetPathTimeObstacle obstacle_id' path_time_obstacle this =
     (if map_of (path_time_obstacle_map this) obstacle_id' = None
      then (False, path_time_obstacle, this)
      else
        (let m' = mutate obstacle_id' (\<lambda>r. r) (path_time_obstacle_map this);
             this' = this\<lparr>path_time_obstacle_map := m'\<rparr>
         in (True, the (map_of m' obstacle_id'), this')))"

section \<open>Notions used in the statements\<close>

text \<open>The SL interval of an obstacle at a sample time, as lines 59 to 64 compute it.\<close>

definition sl_at :: "'box ReferenceLine \<Rightarrow> ('pt, 'box) Obstacle \<Rightarrow> real \<Rightarrow> SLBoundary" where
  "sl_at reference_line obstacle relative_time =
     GetSLBoundary reference_line (GetBoundingBox obstacle (GetPointAtTime obstacle relative_time))"

text \<open>
  The relevance filter in the words of the specification: a sample is irrelevant when its
  interval ends behind the origin, or starts beyond the ego position plus the horizon, or
  lies beyond the lateral threshold on both edges. The ego position is the first component
  of the initial state.
\<close>

definition sample_irrelevant :: "lattice_params \<Rightarrow> real \<times> real \<times> real \<Rightarrow> SLBoundary \<Rightarrow> bool" where
  "sample_irrelevant L ego sl \<longleftrightarrow>
     end_s sl < 0
     \<or> start_s sl > fst ego + planned_trajectory_horizon L
     \<or> (\<bar>start_l sl\<bar> > lateral_enter_lane_thred L \<and> \<bar>end_l sl\<bar> > lateral_enter_lane_thred L)"

text \<open>The \<open>k\<close>-th sample time \<open>0, \<Delta>t, 2\<Delta>t, \<dots>\<close>\<close>

definition sample_time :: "lattice_params \<Rightarrow> nat \<Rightarrow> real" where
  "sample_time L k = real k * trajectory_time_resolution L"

text \<open>The map \<open>m'\<close> still has an entry under \<open>k\<close>, with the two left corners of \<open>r\<close>.\<close>

definition left_corners_kept :: "string \<Rightarrow> PathTimeObstacle \<Rightarrow> obstacle_map \<Rightarrow> bool" where
  "left_corners_kept k r m' \<longleftrightarrow>
     (\<exists>r'. map_of m' k = Some r' \<and> bottom_left r' = bottom_left r \<and> upper_left r' = upper_left r)"



text \<open>
  What can be read off an entry alone: the two left corners share their time, the two
  right corners share theirs, and the identifier stored in the region and in each of its
  four corners is the key \<open>k\<close>. \<open>regions_ok\<close> asks it of every entry. Which times the
  corners carry is stated against the history \<open>relevant_times\<close>.
\<close>

definition region_ok :: "string \<Rightarrow> PathTimeObstacle \<Rightarrow> bool" where
  "region_ok k r \<longleftrightarrow>
     pt_t (bottom_left r) = pt_t (upper_left r) \<and>
     pt_t (bottom_right r) = pt_t (upper_right r) \<and>
     obstacle_id r = k \<and>
     pt_obstacle_id (bottom_left r) = k \<and> pt_obstacle_id (upper_left r) = k \<and>
     pt_obstacle_id (bottom_right r) = k \<and> pt_obstacle_id (upper_right r) = k"

definition regions_ok :: "obstacle_map \<Rightarrow> bool" where
  "regions_ok m \<longleftrightarrow> (\<forall>(k, r) \<in> set m. region_ok k r)"

text \<open>
  The corners of a region are ordered when the smaller left \<open>s\<close> is at most the larger
  right \<open>s\<close>, and likewise for the times: the four values the second loop reads.
\<close>

definition corners_ordered :: "PathTimeObstacle \<Rightarrow> bool" where
  "corners_ordered r \<longleftrightarrow>
     min (pt_s (bottom_left r)) (pt_s (upper_left r))
       \<le> max (pt_s (bottom_right r)) (pt_s (upper_right r)) \<and>
     min (pt_t (bottom_left r)) (pt_t (upper_left r))
       \<le> max (pt_t (bottom_right r)) (pt_t (upper_right r))"

section \<open>The example scenario of the specification\<close>

text \<open>
  Horizon 50 m, 5 s, step 0.5 s, lateral threshold 2.5 m, ego at 0. The reference line of
  the example takes a box that is already an SL interval, and a trajectory point is its
  time. Obstacle A is in the lane at times 0 and 0.5 and clear of it from time 1 on;
  obstacle B is clear of the lane at every time; obstacle C has no predicted trajectory.
\<close>

definition exL :: lattice_params where
  "exL = \<lparr>planned_trajectory_time = 5, planned_trajectory_horizon = 50,
          trajectory_time_resolution = 1/2, lateral_enter_lane_thred = 5/2,
          MatchToReferenceLine = (\<lambda>pts s. \<lparr>theta = 0\<rparr>)\<rparr>"

definition exRL :: "SLBoundary ReferenceLine" where
  "exRL = \<lparr>GetSLBoundary = (\<lambda>box. box)\<rparr>"

definition boxA :: "real \<Rightarrow> SLBoundary" where
  "boxA time =
     (if time < 1/2 then \<lparr>start_s = 10, end_s = 12, start_l = 0, end_l = 1\<rparr>
      else if time < 1 then \<lparr>start_s = 11, end_s = 13, start_l = 0, end_l = 1\<rparr>
      else \<lparr>start_s = 11, end_s = 13, start_l = 4, end_l = 5\<rparr>)"

definition obstacleA :: "(real, SLBoundary) Obstacle" where
  "obstacleA = \<lparr>ob_Id = ''A'', trajectory_point_size = 3,
                GetPointAtTime = (\<lambda>time. time), GetBoundingBox = boxA,
                velocity_x = 3, velocity_y = 4\<rparr>"

definition obstacleB :: "(real, SLBoundary) Obstacle" where
  "obstacleB = \<lparr>ob_Id = ''B'', trajectory_point_size = 2,
                GetPointAtTime = (\<lambda>time. time),
                GetBoundingBox = (\<lambda>time. \<lparr>start_s = 20, end_s = 22, start_l = 4, end_l = 5\<rparr>),
                velocity_x = 1, velocity_y = 0\<rparr>"

definition obstacleC :: "(real, SLBoundary) Obstacle" where
  "obstacleC = \<lparr>ob_Id = ''C'', trajectory_point_size = 0,
                GetPointAtTime = (\<lambda>time. time),
                GetBoundingBox = (\<lambda>time. \<lparr>start_s = 10, end_s = 12, start_l = 0, end_l = 1\<rparr>),
                velocity_x = 0, velocity_y = 0\<rparr>"

text \<open>The entry that the first sample of A writes into the empty map.\<close>

definition regionA :: PathTimeObstacle where
  "regionA = \<lparr>obstacle_id = ''A'',
      bottom_left = \<lparr>pt_s = 10, pt_t = 0, pt_obstacle_id = ''A''\<rparr>,
      upper_left = \<lparr>pt_s = 12, pt_t = 0, pt_obstacle_id = ''A''\<rparr>,
      bottom_right = \<lparr>pt_s = 10, pt_t = 0, pt_obstacle_id = ''A''\<rparr>,
      upper_right = \<lparr>pt_s = 12, pt_t = 0, pt_obstacle_id = ''A''\<rparr>,
      path_lower = 0, path_upper = 0, time_lower = 0, time_upper = 0\<rparr>"

text \<open>
  Two more obstacles, both in the range of the horizon. Obstacle D moves backwards: its
  interval is 10 to 12 at time 0 and 5 to 7 from time 0.5 on, in the lane throughout.
  Obstacle E is clear of the lane at time 0 and in the lane from time 0.5 on. With them the
  entries that their passes write: D after its sample at time 0, D after a further sample
  at time 0.5, and E after its first relevant sample.
\<close>

definition boxD :: "real \<Rightarrow> SLBoundary" where
  "boxD time =
     (if time < 1/2 then \<lparr>start_s = 10, end_s = 12, start_l = 0, end_l = 1\<rparr>
      else \<lparr>start_s = 5, end_s = 7, start_l = 0, end_l = 1\<rparr>)"

definition obstacleD :: "(real, SLBoundary) Obstacle" where
  "obstacleD = \<lparr>ob_Id = ''D'', trajectory_point_size = 3,
                GetPointAtTime = (\<lambda>time. time), GetBoundingBox = boxD,
                velocity_x = -10, velocity_y = 0\<rparr>"

definition boxE :: "real \<Rightarrow> SLBoundary" where
  "boxE time =
     (if time < 1/2 then \<lparr>start_s = 20, end_s = 22, start_l = 4, end_l = 5\<rparr>
      else \<lparr>start_s = 21, end_s = 23, start_l = 0, end_l = 1\<rparr>)"

definition obstacleE :: "(real, SLBoundary) Obstacle" where
  "obstacleE = \<lparr>ob_Id = ''E'', trajectory_point_size = 3,
                GetPointAtTime = (\<lambda>time. time), GetBoundingBox = boxE,
                velocity_x = 2, velocity_y = 0\<rparr>"

definition regionD0 :: PathTimeObstacle where
  "regionD0 = \<lparr>obstacle_id = ''D'',
      bottom_left = \<lparr>pt_s = 10, pt_t = 0, pt_obstacle_id = ''D''\<rparr>,
      upper_left = \<lparr>pt_s = 12, pt_t = 0, pt_obstacle_id = ''D''\<rparr>,
      bottom_right = \<lparr>pt_s = 10, pt_t = 0, pt_obstacle_id = ''D''\<rparr>,
      upper_right = \<lparr>pt_s = 12, pt_t = 0, pt_obstacle_id = ''D''\<rparr>,
      path_lower = 0, path_upper = 0, time_lower = 0, time_upper = 0\<rparr>"

definition regionD1 :: PathTimeObstacle where
  "regionD1 = regionD0\<lparr>bottom_right := \<lparr>pt_s = 5, pt_t = 1/2, pt_obstacle_id = ''D''\<rparr>,
                        upper_right := \<lparr>pt_s = 7, pt_t = 1/2, pt_obstacle_id = ''D''\<rparr>\<rparr>"

definition regionE :: PathTimeObstacle where
  "regionE = \<lparr>obstacle_id = ''E'',
      bottom_left = \<lparr>pt_s = 21, pt_t = 1/2, pt_obstacle_id = ''E''\<rparr>,
      upper_left = \<lparr>pt_s = 23, pt_t = 1/2, pt_obstacle_id = ''E''\<rparr>,
      bottom_right = \<lparr>pt_s = 21, pt_t = 1/2, pt_obstacle_id = ''E''\<rparr>,
      upper_right = \<lparr>pt_s = 23, pt_t = 1/2, pt_obstacle_id = ''E''\<rparr>,
      path_lower = 0, path_upper = 0, time_lower = 0, time_upper = 0\<rparr>"

text \<open>An object whose map holds that entry.\<close>

definition exN :: PathTimeNeighborhood where
  "exN = \<lparr>init_s = (0, 0, 0), path_time_obstacle_map = [(''A'', regionA)]\<rparr>"

lemmas example_defs =
  exL_def exRL_def boxA_def obstacleA_def obstacleB_def obstacleC_def regionA_def exN_def
  boxD_def obstacleD_def boxE_def obstacleE_def regionD0_def regionD1_def regionE_def

lemmas eval_defs =
  loop_body_def Let_def mutate_def SetPathTimePoint_def
  PathTimeObstacle_default_def PathTimePoint_default_def

section \<open>The map operations and one pass through the loop body\<close>

lemma mutate_map_of:
  "map_of (mutate k f m) =
     (map_of m)(k \<mapsto> f (case map_of m k of None \<Rightarrow> PathTimeObstacle_default | Some r \<Rightarrow> r))"
  by (simp add: mutate_def update_conv' split: option.splits)

lemma mutate_mutate: "mutate k g (mutate k f m) = mutate k (\<lambda>r. g (f r)) m"
  by (simp add: mutate_def update_conv' split: option.splits)

lemma loop_body_irrelevant:
  "sample_irrelevant L i (sl_at rl ob rt) \<Longrightarrow>
   loop_body L i rl pts ob rt m =
     (if map_of m (ob_Id ob) \<noteq> None then Break else Continue (rt + trajectory_time_resolution L))"
  by (simp add: loop_body_def sample_irrelevant_def sl_at_def Let_def)

lemma loop_body_relevant:
  "\<not> sample_irrelevant L i (sl_at rl ob rt) \<Longrightarrow>
   loop_body L i rl pts ob rt m =
     Fallthrough (mutate (ob_Id ob)
        (\<lambda>r. (if map_of m (ob_Id ob) = None
               then r\<lparr>obstacle_id := ob_Id ob,
                      bottom_left := SetPathTimePoint (ob_Id ob) (start_s (sl_at rl ob rt)) rt,
                      upper_left := SetPathTimePoint (ob_Id ob) (end_s (sl_at rl ob rt)) rt\<rparr>
               else r)
              \<lparr>bottom_right := SetPathTimePoint (ob_Id ob) (start_s (sl_at rl ob rt)) rt,
               upper_right := SetPathTimePoint (ob_Id ob) (end_s (sl_at rl ob rt)) rt\<rparr>) m)"
  by (cases "map_of m (ob_Id ob)")
     (simp_all add: loop_body_def sample_irrelevant_def sl_at_def Let_def mutate_mutate)

lemma loop_body_Fallthrough_relevant:
  "loop_body L i rl pts ob rt m = Fallthrough m' \<Longrightarrow> \<not> sample_irrelevant L i (sl_at rl ob rt)"
  by (auto simp: loop_body_irrelevant split: if_splits)

section \<open>The sampling loop leaves only through an irrelevant sample\<close>

text \<open>
  Whenever the loop returns, the map is the one it started with, and the sample at its start
  time was irrelevant unless the time was already past the horizon: the pass for a relevant
  sample ends at line 108 without adding the time step, which stands after the loop at
  line 110, so the same sample is taken again.
\<close>

lemma sample_loop_SomeD:
  assumes "sample_loop L i rl pts ob rt m = Some y"
  shows "snd y = m \<and> (rt < planned_trajectory_time L \<longrightarrow> sample_irrelevant L i (sl_at rl ob rt))"
proof (rule sample_loop.raw_induct
    [where P = "\<lambda>L i rl pts ob rt m y.
        snd y = m \<and> (rt < planned_trajectory_time L \<longrightarrow> sample_irrelevant L i (sl_at rl ob rt))",
      OF _ assms])
  fix f :: "lattice_params \<Rightarrow> real \<times> real \<times> real \<Rightarrow> 'a ReferenceLine \<Rightarrow> PathPoint list \<Rightarrow>
            ('b, 'a) Obstacle \<Rightarrow> real \<Rightarrow> obstacle_map \<Rightarrow> (real \<times> obstacle_map) option"
    and L i rl pts ob rt m y
  assume IH: "\<And>L i rl pts ob rt m y. f L i rl pts ob rt m = Some y \<Longrightarrow>
        snd y = m \<and> (rt < planned_trajectory_time L \<longrightarrow> sample_irrelevant L i (sl_at rl ob rt))"
    and step: "(if rt < planned_trajectory_time L then
        (case loop_body L i rl pts ob rt m of
           Break \<Rightarrow> Some (rt, m)
         | Continue relative_time' \<Rightarrow> f L i rl pts ob relative_time' m
         | Fallthrough m' \<Rightarrow> f L i rl pts ob rt m')
      else Some (rt, m)) = Some y"
  show "snd y = m \<and> (rt < planned_trajectory_time L \<longrightarrow> sample_irrelevant L i (sl_at rl ob rt))"
  proof (cases "rt < planned_trajectory_time L")
    case False
    with step show ?thesis by auto
  next
    case True
    show ?thesis
    proof (cases "sample_irrelevant L i (sl_at rl ob rt)")
      case irr: True
      show ?thesis
      proof (cases "map_of m (ob_Id ob)")
        case None
        with True irr step have "f L i rl pts ob (rt + trajectory_time_resolution L) m = Some y"
          by (simp add: loop_body_irrelevant)
        from IH[OF this] irr show ?thesis by simp
      next
        case (Some r)
        with True irr step show ?thesis by (auto simp: loop_body_irrelevant)
      qed
    next
      case rel: False
      with True step obtain m' where "f L i rl pts ob rt m' = Some y"
        by (auto simp: loop_body_relevant)
      from IH[OF this] True rel show ?thesis by simp
    qed
  qed
qed

lemma sample_loop_relevant_None:
  "rt < planned_trajectory_time L \<Longrightarrow> \<not> sample_irrelevant L i (sl_at rl ob rt) \<Longrightarrow>
   sample_loop L i rl pts ob rt m = None"
  using sample_loop_SomeD [of L i rl pts ob rt m]
  by (cases "sample_loop L i rl pts ob rt m") auto

lemma process_obstacle_SomeD:
  "process_obstacle L i rl pts ob m = Some m' \<Longrightarrow> m' = m"
  by (auto simp: process_obstacle_def Let_def split: if_splits option.splits
      dest: sample_loop_SomeD)

lemma obstacles_loop_SomeD:
  "obstacles_loop L i rl pts obs m = Some m' \<Longrightarrow> m' = m"
  by (induction obs arbitrary: m) (auto split: option.splits dest: process_obstacle_SomeD)

lemma SetupObstacles_SomeD:
  "SetupObstacles L i rl pts obs m = Some m' \<Longrightarrow>
   m' = map (\<lambda>(k, r). (k, finalize_bounds r)) m"
  by (auto simp: SetupObstacles_def split: option.splits dest: obstacles_loop_SomeD)

lemma ctor_SomeD:
  "PathTimeNeighborhood_ctor L obs i rl pts = Some N \<Longrightarrow>
   N = \<lparr>init_s = i, path_time_obstacle_map = []\<rparr>"
  by (auto simp: PathTimeNeighborhood_ctor_def split: option.splits dest: SetupObstacles_SomeD)

lemma obstacles_loop_relevant_None:
  assumes "ob \<in> set obs" "trajectory_point_size ob \<noteq> 0" "0 < planned_trajectory_time L"
    "\<not> sample_irrelevant L i (sl_at rl ob 0)"
  shows "obstacles_loop L i rl pts obs m = None"
  using assms(1)
proof (induction obs arbitrary: m)
  case Nil
  then show ?case by simp
next
  case (Cons a obs)
  show ?case
  proof (cases "process_obstacle L i rl pts a m")
    case None
    then show ?thesis by simp
  next
    case (Some m')
    have "a \<noteq> ob"
    proof
      assume "a = ob"
      with Some assms(2) sample_loop_relevant_None [OF assms(3,4), of pts m]
      show False by (simp add: process_obstacle_def)
    qed
    with Cons Some show ?thesis by simp
  qed
qed

text \<open>
  C1. The claim says that the sampling loop of an obstacle terminates, also when some sample
  is relevant. The code does not: started at a time before the horizon whose sample is
  relevant, the loop never leaves, whatever the map.
\<close>

theorem sample_loop_never_leaves_on_relevant_sample:
  assumes "relative_time < planned_trajectory_time L"
    and "\<not> sample_irrelevant L init_s' (sl_at reference_line obstacle relative_time)"
  shows "sample_loop L init_s' reference_line discretized_ref_points obstacle relative_time m = None"
  using assms by (rule sample_loop_relevant_None)

theorem sample_loop_never_leaves_on_relevant_sample_witness:
  "(0::real) < planned_trajectory_time exL
   \<and> \<not> sample_irrelevant exL (0, 0, 0) (sl_at exRL obstacleA 0)
   \<and> sample_loop exL (0, 0, 0) exRL [] obstacleA 0 [] = None"
proof -
  have t: "(0::real) < planned_trajectory_time exL" by (simp add: exL_def)
  have r: "\<not> sample_irrelevant exL (0, 0, 0) (sl_at exRL obstacleA 0)"
    by (simp add: sample_irrelevant_def sl_at_def example_defs)
  from t r sample_loop_never_leaves_on_relevant_sample [OF t r, of "[]" "[]"]
  show ?thesis by simp
qed

text \<open>
  C3. The claim gives the finalized region of an obstacle that is relevant from the start of
  its sampling. The code never gets to finalize it: when the frame holds an obstacle with a
  predicted trajectory whose sample at time 0 is relevant, the constructor does not return.
\<close>

theorem ctor_never_returns_when_first_sample_relevant:
  assumes "obstacle \<in> set frame_obstacles"
    and "trajectory_point_size obstacle \<noteq> 0"
    and "0 < planned_trajectory_time L"
    and "\<not> sample_irrelevant L init_s' (sl_at reference_line obstacle 0)"
  shows "PathTimeNeighborhood_ctor L frame_obstacles init_s' reference_line discretized_ref_points = None"
  using obstacles_loop_relevant_None [OF assms, of discretized_ref_points "[]"]
  by (simp add: PathTimeNeighborhood_ctor_def SetupObstacles_def)

theorem ctor_never_returns_when_first_sample_relevant_witness:
  "obstacleA \<in> set [obstacleA]
   \<and> trajectory_point_size obstacleA \<noteq> 0
   \<and> 0 < planned_trajectory_time exL
   \<and> \<not> sample_irrelevant exL (0, 0, 0) (sl_at exRL obstacleA 0)
   \<and> \<not> sample_irrelevant exL (0, 0, 0) (sl_at exRL obstacleA (1/2))
   \<and> sample_irrelevant exL (0, 0, 0) (sl_at exRL obstacleA 1)
   \<and> PathTimeNeighborhood_ctor exL [obstacleA] (0, 0, 0) exRL [] = None"
proof -
  have a: "obstacleA \<in> set [obstacleA]" by simp
  have b: "trajectory_point_size obstacleA \<noteq> 0" by (simp add: obstacleA_def)
  have c: "0 < planned_trajectory_time exL" by (simp add: exL_def)
  have d: "\<not> sample_irrelevant exL (0, 0, 0) (sl_at exRL obstacleA 0)"
    by (simp add: sample_irrelevant_def sl_at_def example_defs)
  have e: "\<not> sample_irrelevant exL (0, 0, 0) (sl_at exRL obstacleA (1/2))"
    by (simp add: sample_irrelevant_def sl_at_def example_defs)
  have f: "sample_irrelevant exL (0, 0, 0) (sl_at exRL obstacleA 1)"
    by (simp add: sample_irrelevant_def sl_at_def example_defs)
  from a b c d e f ctor_never_returns_when_first_sample_relevant [OF a b c d, of "[]"]
  show ?thesis by simp
qed

text \<open>
  What the loop does instead: the pass for a relevant sample leaves the map in a state that
  the next pass for the same sample reproduces, so from then on the loop repeats one state.
\<close>

lemma loop_body_Fallthrough_again:
  assumes "loop_body L i rl pts ob rt m = Fallthrough m'"
  shows "loop_body L i rl pts ob rt m' = Fallthrough m'"
proof -
  from assms have rel: "\<not> sample_irrelevant L i (sl_at rl ob rt)"
    by (rule loop_body_Fallthrough_relevant)
  from assms obtain r' where "map_of m' (ob_Id ob) = Some r'"
    unfolding loop_body_relevant [OF rel] by (auto simp: mutate_map_of)
  then have again: "loop_body L i rl pts ob rt m' =
      Fallthrough (mutate (ob_Id ob)
        (\<lambda>r. r\<lparr>bottom_right := SetPathTimePoint (ob_Id ob) (start_s (sl_at rl ob rt)) rt,
               upper_right := SetPathTimePoint (ob_Id ob) (end_s (sl_at rl ob rt)) rt\<rparr>) m')"
    by (simp add: loop_body_relevant [OF rel])
  from assms show ?thesis
    unfolding again loop_body_relevant [OF rel, of pts m]
    by (cases "map_of m (ob_Id ob)") (auto simp: mutate_mutate)
qed

lemma sample_loop_steps_stuck:
  assumes "rt < planned_trajectory_time L" "loop_body L i rl pts ob rt m' = Fallthrough m'"
  shows "sample_loop_steps L i rl pts ob n rt m' = (rt, m')"
  using assms by (induction n) auto

lemma sample_loop_steps_relevant:
  assumes "rt < planned_trajectory_time L" "loop_body L i rl pts ob rt m = Fallthrough m'"
  shows "sample_loop_steps L i rl pts ob (Suc n) rt m = (rt, m')"
  using assms sample_loop_steps_stuck [OF assms(1) loop_body_Fallthrough_again [OF assms(2)], of n]
  by simp

text \<open>
  In the example the loop of obstacle A never gets past time 0: after any number of passes
  the time is 0 and the right corners are those of the first sample.
\<close>

lemma stepsA_stuck:
  "sample_loop_steps exL (0, 0, 0) exRL [] obstacleA (Suc n) 0 [] = (0, [(''A'', regionA)])"
proof -
  have t: "(0::real) < planned_trajectory_time exL" by (simp add: exL_def)
  have b: "loop_body exL (0, 0, 0) exRL [] obstacleA 0 [] = Fallthrough [(''A'', regionA)]"
    by (simp add: eval_defs example_defs)
  from sample_loop_steps_relevant [OF t b] show ?thesis .
qed

text \<open>The bounded loop and the loop agree: a result of the loop is a state after some passes.\<close>

lemma sample_loop_steps_Some:
  assumes "sample_loop L i rl pts ob rt m = Some y"
  shows "\<exists>n. sample_loop_steps L i rl pts ob n rt m = y"
proof (rule sample_loop.raw_induct
    [where P = "\<lambda>L i rl pts ob rt m y. \<exists>n. sample_loop_steps L i rl pts ob n rt m = y",
      OF _ assms])
  fix f :: "lattice_params \<Rightarrow> real \<times> real \<times> real \<Rightarrow> 'a ReferenceLine \<Rightarrow> PathPoint list \<Rightarrow>
            ('b, 'a) Obstacle \<Rightarrow> real \<Rightarrow> obstacle_map \<Rightarrow> (real \<times> obstacle_map) option"
    and L i rl pts ob rt m y
  assume IH: "\<And>L i rl pts ob rt m y. f L i rl pts ob rt m = Some y \<Longrightarrow>
        \<exists>n. sample_loop_steps L i rl pts ob n rt m = y"
    and step: "(if rt < planned_trajectory_time L then
        (case loop_body L i rl pts ob rt m of
           Break \<Rightarrow> Some (rt, m)
         | Continue relative_time' \<Rightarrow> f L i rl pts ob relative_time' m
         | Fallthrough m' \<Rightarrow> f L i rl pts ob rt m')
      else Some (rt, m)) = Some y"
  show "\<exists>n. sample_loop_steps L i rl pts ob n rt m = y"
  proof (cases "rt < planned_trajectory_time L")
    case False
    with step have "sample_loop_steps L i rl pts ob 0 rt m = y" by simp
    then show ?thesis ..
  next
    case True
    show ?thesis
    proof (cases "loop_body L i rl pts ob rt m")
      case Break
      with True step have "sample_loop_steps L i rl pts ob 0 rt m = y" by simp
      then show ?thesis ..
    next
      case (Continue rt')
      with True step have "f L i rl pts ob rt' m = Some y" by simp
      from IH [OF this] obtain n where "sample_loop_steps L i rl pts ob n rt' m = y" ..
      with True Continue have "sample_loop_steps L i rl pts ob (Suc n) rt m = y" by simp
      then show ?thesis ..
    next
      case (Fallthrough m')
      with True step have "f L i rl pts ob rt m' = Some y" by simp
      from IH [OF this] obtain n where "sample_loop_steps L i rl pts ob n rt m' = y" ..
      with True Fallthrough have "sample_loop_steps L i rl pts ob (Suc n) rt m = y" by simp
      then show ?thesis ..
    qed
  qed
qed

section \<open>An obstacle that is never relevant\<close>

lemma sample_time_Suc: "sample_time L (Suc k) = sample_time L k + trajectory_time_resolution L"
  by (simp add: sample_time_def algebra_simps)

text \<open>
  With a positive time step, the loop of an obstacle whose samples before the horizon are
  all irrelevant does return, and it returns the map it was given.
\<close>

lemma sample_loop_irrelevant_returns:
  assumes dt: "0 < trajectory_time_resolution L"
    and irr: "\<forall>k. sample_time L k < planned_trajectory_time L
                \<longrightarrow> sample_irrelevant L i (sl_at rl ob (sample_time L k))"
  shows "\<exists>rt'. sample_loop L i rl pts ob (sample_time L j) m = Some (rt', m)"
proof (induction "nat \<lceil>planned_trajectory_time L / trajectory_time_resolution L\<rceil> - j" arbitrary: j)
  case 0
  then have "planned_trajectory_time L / trajectory_time_resolution L \<le> real j"
    by simp
  with dt have "planned_trajectory_time L \<le> sample_time L j"
    by (simp add: sample_time_def pos_divide_le_eq)
  then show ?case by (subst sample_loop.simps) simp
next
  case (Suc n)
  show ?case
  proof (cases "sample_time L j < planned_trajectory_time L")
    case False
    then show ?thesis by (subst sample_loop.simps) simp
  next
    case True
    with irr have ir: "sample_irrelevant L i (sl_at rl ob (sample_time L j))" by simp
    show ?thesis
    proof (cases "map_of m (ob_Id ob)")
      case (Some r)
      with True ir show ?thesis
        by (subst sample_loop.simps) (simp add: loop_body_irrelevant)
    next
      case None
      from Suc(2) have "n = nat \<lceil>planned_trajectory_time L / trajectory_time_resolution L\<rceil> - Suc j"
        by simp
      from Suc(1) [OF this] obtain rt' where
        "sample_loop L i rl pts ob (sample_time L (Suc j)) m = Some (rt', m)" by blast
      with True ir None show ?thesis
        by (subst sample_loop.simps) (simp add: loop_body_irrelevant sample_time_Suc)
    qed
  qed
qed

lemma process_obstacle_never_relevant:
  assumes "0 < trajectory_time_resolution L"
    and "\<forall>k. sample_time L k < planned_trajectory_time L
                \<longrightarrow> sample_irrelevant L i (sl_at rl ob (sample_time L k))"
  shows "process_obstacle L i rl pts ob m = Some m"
  using sample_loop_irrelevant_returns [OF assms, of pts 0 m]
  by (auto simp: process_obstacle_def sample_time_def)

text \<open>
  Conversely a relevant sample at any sample time before the horizon keeps the loop from
  returning, so the turn of an obstacle returns exactly when it is never relevant.
\<close>

lemma sample_time_mono: "0 < trajectory_time_resolution L \<Longrightarrow> j \<le> k \<Longrightarrow> sample_time L j \<le> sample_time L k"
  by (simp add: sample_time_def)

lemma sample_loop_first_relevant_None:
  assumes dt: "0 < trajectory_time_resolution L"
    and absent: "map_of m (ob_Id ob) = None"
    and before: "sample_time L k < planned_trajectory_time L"
    and rel: "\<not> sample_irrelevant L i (sl_at rl ob (sample_time L k))"
    and j: "j \<le> k"
  shows "sample_loop L i rl pts ob (sample_time L j) m = None"
  using j
proof (induction "k - j" arbitrary: j)
  case 0
  then have "j = k" by simp
  with before rel show ?case by (simp add: sample_loop_relevant_None)
next
  case (Suc n)
  then have jk: "Suc j \<le> k" and n: "n = k - Suc j" by simp_all
  from sample_time_mono [OF dt, of j k] Suc.prems before
  have lt: "sample_time L j < planned_trajectory_time L" by simp
  show ?case
  proof (cases "sample_irrelevant L i (sl_at rl ob (sample_time L j))")
    case False
    with lt show ?thesis by (simp add: sample_loop_relevant_None)
  next
    case True
    from Suc.hyps(1) [OF n jk]
    have "sample_loop L i rl pts ob (sample_time L (Suc j)) m = None" .
    with True lt absent show ?thesis
      by (subst sample_loop.simps) (simp add: loop_body_irrelevant sample_time_Suc)
  qed
qed

lemma process_obstacle_returns_iff:
  assumes "0 < trajectory_time_resolution L" "map_of m (ob_Id ob) = None"
    "trajectory_point_size ob \<noteq> 0"
  shows "(\<exists>m'. process_obstacle L i rl pts ob m = Some m') \<longleftrightarrow>
         (\<forall>k. sample_time L k < planned_trajectory_time L
                \<longrightarrow> sample_irrelevant L i (sl_at rl ob (sample_time L k)))"
proof
  assume "\<exists>m'. process_obstacle L i rl pts ob m = Some m'"
  then obtain m' where m': "process_obstacle L i rl pts ob m = Some m'" ..
  show "\<forall>k. sample_time L k < planned_trajectory_time L
                \<longrightarrow> sample_irrelevant L i (sl_at rl ob (sample_time L k))"
  proof (intro allI impI, rule ccontr)
    fix k assume "sample_time L k < planned_trajectory_time L"
      and "\<not> sample_irrelevant L i (sl_at rl ob (sample_time L k))"
    from sample_loop_first_relevant_None [OF assms(1,2) this, of 0 pts]
    have "sample_loop L i rl pts ob 0 m = None" by (simp add: sample_time_def)
    with m' assms(3) show False by (simp add: process_obstacle_def)
  qed
next
  assume "\<forall>k. sample_time L k < planned_trajectory_time L
                \<longrightarrow> sample_irrelevant L i (sl_at rl ob (sample_time L k))"
  from process_obstacle_never_relevant [OF assms(1) this] show "\<exists>m'. process_obstacle L i rl pts ob m = Some m'"
    by blast
qed

lemma ctorBC:
  "PathTimeNeighborhood_ctor exL [obstacleB, obstacleC] (0, 0, 0) exRL [] =
     Some \<lparr>init_s = (0, 0, 0), path_time_obstacle_map = []\<rparr>"
  by (simp add: PathTimeNeighborhood_ctor_def SetupObstacles_def process_obstacle_def
      sample_loop.simps eval_defs example_defs)

text \<open>
  C4. When the constructor returns, an obstacle of the frame that has no predicted
  trajectory, or whose samples at the sample times before the horizon are all irrelevant,
  has no entry in the map, and no region of \<open>GetPathTimeObstacles\<close> carries its identifier.
\<close>

theorem never_relevant_obstacle_absent:
  assumes "PathTimeNeighborhood_ctor L frame_obstacles init_s' reference_line discretized_ref_points = Some N"
    and "obstacle \<in> set frame_obstacles"
    and "trajectory_point_size obstacle = 0
         \<or> (\<forall>k. sample_time L k < planned_trajectory_time L
                 \<longrightarrow> sample_irrelevant L init_s' (sl_at reference_line obstacle (sample_time L k)))"
  shows "ob_Id obstacle \<notin> fst ` set (path_time_obstacle_map N)
         \<and> (\<forall>r \<in> set (GetPathTimeObstacles N). obstacle_id r \<noteq> ob_Id obstacle)"
  using ctor_SomeD [OF assms(1)] by (simp add: GetPathTimeObstacles_def)

theorem never_relevant_obstacle_absent_witness:
  "PathTimeNeighborhood_ctor exL [obstacleB, obstacleC] (0, 0, 0) exRL [] =
     Some \<lparr>init_s = (0, 0, 0), path_time_obstacle_map = []\<rparr>
   \<and> obstacleB \<in> set [obstacleB, obstacleC]
   \<and> (\<forall>k. sample_irrelevant exL (0, 0, 0) (sl_at exRL obstacleB (sample_time exL k)))
   \<and> ob_Id obstacleB \<notin> fst ` set (path_time_obstacle_map \<lparr>init_s = (0, 0, 0), path_time_obstacle_map = []\<rparr>)
   \<and> obstacleC \<in> set [obstacleB, obstacleC]
   \<and> trajectory_point_size obstacleC = 0
   \<and> ob_Id obstacleC \<notin> fst ` set (path_time_obstacle_map \<lparr>init_s = (0, 0, 0), path_time_obstacle_map = []\<rparr>)
   \<and> GetPathTimeObstacles \<lparr>init_s = (0, 0, 0), path_time_obstacle_map = []\<rparr> = []"
proof -
  have b: "obstacleB \<in> set [obstacleB, obstacleC]" by simp
  have c: "obstacleC \<in> set [obstacleB, obstacleC]" by simp
  have irr: "\<forall>k. sample_irrelevant exL (0, 0, 0) (sl_at exRL obstacleB (sample_time exL k))"
    by (simp add: sample_irrelevant_def sl_at_def example_defs)
  have sz: "trajectory_point_size obstacleC = 0" by (simp add: obstacleC_def)
  from irr have hb: "trajectory_point_size obstacleB = 0
         \<or> (\<forall>k. sample_time exL k < planned_trajectory_time exL
                 \<longrightarrow> sample_irrelevant exL (0, 0, 0) (sl_at exRL obstacleB (sample_time exL k)))"
    by simp
  from sz have hc: "trajectory_point_size obstacleC = 0
         \<or> (\<forall>k. sample_time exL k < planned_trajectory_time exL
                 \<longrightarrow> sample_irrelevant exL (0, 0, 0) (sl_at exRL obstacleC (sample_time exL k)))"
    by simp
  from never_relevant_obstacle_absent [OF ctorBC b hb] never_relevant_obstacle_absent [OF ctorBC c hc]
    ctorBC b c irr sz
  show ?thesis by (simp add: GetPathTimeObstacles_def)
qed

section \<open>An obstacle without a predicted trajectory\<close>

lemma obstacles_loop_append:
  "obstacles_loop L i rl pts (xs @ ys) m =
     (case obstacles_loop L i rl pts xs m of
        None \<Rightarrow> None
      | Some m' \<Rightarrow> obstacles_loop L i rl pts ys m')"
  by (induction xs arbitrary: m) (auto split: option.splits)

text \<open>
  C8. An obstacle whose predicted trajectory has no point is skipped: its turn in the loop
  returns at once with the map as it was, whatever its geometry, and the build of a frame
  that holds it anywhere is the build of the frame without it.
\<close>

theorem empty_trajectory_skipped:
  assumes "trajectory_point_size obstacle = 0"
  shows "process_obstacle L init_s' reference_line discretized_ref_points obstacle m = Some m
         \<and> SetupObstacles L init_s' reference_line discretized_ref_points (before @ obstacle # after) m
           = SetupObstacles L init_s' reference_line discretized_ref_points (before @ after) m"
proof -
  from assms
  have "\<And>m. process_obstacle L init_s' reference_line discretized_ref_points obstacle m = Some m"
    by (simp add: process_obstacle_def)
  then show ?thesis
    by (simp add: SetupObstacles_def obstacles_loop_append split: option.splits)
qed

theorem empty_trajectory_skipped_witness:
  "trajectory_point_size obstacleC = 0
   \<and> process_obstacle exL (0, 0, 0) exRL [] obstacleC [(''A'', regionA)] = Some [(''A'', regionA)]
   \<and> SetupObstacles exL (0, 0, 0) exRL [] ([obstacleB] @ obstacleC # []) [] = Some []
   \<and> SetupObstacles exL (0, 0, 0) exRL [] ([obstacleB] @ []) [] = Some []"
proof -
  have h: "trajectory_point_size obstacleC = 0" by (simp add: obstacleC_def)
  have s: "SetupObstacles exL (0, 0, 0) exRL [] ([obstacleB] @ []) [] = Some []"
    by (simp add: SetupObstacles_def process_obstacle_def sample_loop.simps eval_defs example_defs)
  from empty_trajectory_skipped [OF h, of exL "(0, 0, 0)" exRL "[]" "[(''A'', regionA)]"]
    empty_trajectory_skipped [OF h, of exL "(0, 0, 0)" exRL "[]" "[]" "[obstacleB]" "[]"] h s
  show ?thesis by simp
qed

section \<open>The relevance filter\<close>

text \<open>
  C6. A pass through the loop body takes the way of an irrelevant sample (it leaves by
  \<open>break\<close>, or by \<open>continue\<close> with the time step added) exactly when the filter of the
  specification holds of the sample; otherwise it processes the sample as relevant: it
  reaches the end of the body, and the entry of the obstacle then has both right corners
  from this sample.
\<close>

theorem relevance_filter_matches_code:
  "(loop_body L init_s' reference_line discretized_ref_points obstacle relative_time m = Break
    \<or> loop_body L init_s' reference_line discretized_ref_points obstacle relative_time m
        = Continue (relative_time + trajectory_time_resolution L))
   = sample_irrelevant L init_s' (sl_at reference_line obstacle relative_time)
   \<and>
   (\<exists>m' r. loop_body L init_s' reference_line discretized_ref_points obstacle relative_time m = Fallthrough m'
      \<and> map_of m' (ob_Id obstacle) = Some r
      \<and> bottom_right r = SetPathTimePoint (ob_Id obstacle)
            (start_s (sl_at reference_line obstacle relative_time)) relative_time
      \<and> upper_right r = SetPathTimePoint (ob_Id obstacle)
            (end_s (sl_at reference_line obstacle relative_time)) relative_time)
   = (\<not> sample_irrelevant L init_s' (sl_at reference_line obstacle relative_time))"
proof (cases "sample_irrelevant L init_s' (sl_at reference_line obstacle relative_time)")
  case True
  then show ?thesis by (simp add: loop_body_irrelevant)
next
  case False
  then show ?thesis by (simp add: loop_body_relevant mutate_map_of)
qed

theorem relevance_filter_matches_code_witness:
  "loop_body exL (0, 0, 0) exRL [] obstacleA 0 [] = Fallthrough [(''A'', regionA)]
   \<and> \<not> sample_irrelevant exL (0, 0, 0) (sl_at exRL obstacleA 0)
   \<and> loop_body exL (0, 0, 0) exRL [] obstacleA 1 [] = Continue (3/2)
   \<and> loop_body exL (0, 0, 0) exRL [] obstacleA 1 [(''A'', regionA)] = Break
   \<and> sample_irrelevant exL (0, 0, 0) (sl_at exRL obstacleA 1)"
proof -
  have a: "loop_body exL (0, 0, 0) exRL [] obstacleA 0 [] = Fallthrough [(''A'', regionA)]"
    by (simp add: eval_defs example_defs)
  have b: "loop_body exL (0, 0, 0) exRL [] obstacleA 1 [] = Continue (3/2)"
    by (simp add: eval_defs example_defs)
  have c: "loop_body exL (0, 0, 0) exRL [] obstacleA 1 [(''A'', regionA)] = Break"
    by (simp add: eval_defs example_defs)
  from relevance_filter_matches_code [of exL "(0, 0, 0)" exRL "[]" obstacleA 0 "[]"] a
  have d: "\<not> sample_irrelevant exL (0, 0, 0) (sl_at exRL obstacleA 0)" by auto
  from relevance_filter_matches_code [of exL "(0, 0, 0)" exRL "[]" obstacleA 1 "[]"] b
  have e: "sample_irrelevant exL (0, 0, 0) (sl_at exRL obstacleA 1)" by (simp add: exL_def)
  from a b c d e show ?thesis by simp
qed

section \<open>The velocity along the reference line\<close>

text \<open>
  C9, as amended. For a relevant sample the loop body computes
  \<open>v = v\<^sub>x cos \<theta> + v\<^sub>y sin \<theta>\<close>, with \<open>\<theta>\<close> the heading of the reference point matched to
  the start of the sample's interval. The value goes to a local that nothing reads: a pass
  through the body gives the same result whatever the velocity of the obstacle and whatever
  the matcher returns, so the value is kept neither in the region nor elsewhere in the object.
\<close>

theorem speed_on_reference_line_discarded:
  "SpeedOnReferenceLine L discretized_ref_points obstacle sl_boundary =
     velocity_x obstacle * cos (theta (MatchToReferenceLine L discretized_ref_points (start_s sl_boundary)))
     + velocity_y obstacle * sin (theta (MatchToReferenceLine L discretized_ref_points (start_s sl_boundary)))
   \<and> loop_body (L\<lparr>MatchToReferenceLine := matcher'\<rparr>) init_s' reference_line discretized_ref_points
        (obstacle\<lparr>velocity_x := vx', velocity_y := vy'\<rparr>) relative_time m
     = loop_body L init_s' reference_line discretized_ref_points obstacle relative_time m"
  by (simp add: SpeedOnReferenceLine_def loop_body_def Let_def mult.commute)

text \<open>
  The claim as stated has the value kept as data of the obstacle beside its region. In the
  example, obstacle A moving at 3 along the path and the same obstacle moving at 7 leave the
  same map after their first sample, a map with one entry that holds corners only.
\<close>

theorem speed_kept_counterexample:
  "SpeedOnReferenceLine exL [] obstacleA (sl_at exRL obstacleA 0) = 3
   \<and> SpeedOnReferenceLine exL [] (obstacleA\<lparr>velocity_x := 7\<rparr>) (sl_at exRL obstacleA 0) = 7
   \<and> loop_body exL (0, 0, 0) exRL [] obstacleA 0 [] = Fallthrough [(''A'', regionA)]
   \<and> loop_body exL (0, 0, 0) exRL [] (obstacleA\<lparr>velocity_x := 7\<rparr>) 0 [] = Fallthrough [(''A'', regionA)]"
  by (simp add: SpeedOnReferenceLine_def eval_defs example_defs)

section \<open>The queries\<close>

lemma mutate_id_present: "map_of m k = Some r \<Longrightarrow> mutate k (\<lambda>r. r) m = m"
  by (simp add: mutate_def update_triv)

lemma map_of_Some_index:
  "map_of m k = Some r \<Longrightarrow> \<exists>j < length m. fst (m ! j) = k \<and> snd (m ! j) = r"
  by (metis fst_conv in_set_conv_nth map_of_SomeD snd_conv)

text \<open>
  C7. When the identifier is a key of the map, \<open>GetPathTimeObstacle\<close> returns true, the out
  parameter holds the entry stored under the key, which is the element of the list of
  \<open>GetPathTimeObstacles\<close> at the position of that key, and the object is as it was. When
  the identifier is not a key, it returns false, and the out parameter and the object are
  as they were.
\<close>

theorem GetPathTimeObstacle_lookup:
  "(\<forall>r. map_of (path_time_obstacle_map this) obstacle_id' = Some r \<longrightarrow>
        GetPathTimeObstacle obstacle_id' path_time_obstacle this = (True, r, this)
        \<and> (\<exists>j < length (GetPathTimeObstacles this).
              fst (path_time_obstacle_map this ! j) = obstacle_id'
              \<and> GetPathTimeObstacles this ! j = r))
   \<and> (map_of (path_time_obstacle_map this) obstacle_id' = None \<longrightarrow>
        GetPathTimeObstacle obstacle_id' path_time_obstacle this = (False, path_time_obstacle, this))"
proof (intro conjI allI impI)
  fix r assume r: "map_of (path_time_obstacle_map this) obstacle_id' = Some r"
  then show "GetPathTimeObstacle obstacle_id' path_time_obstacle this = (True, r, this)"
    by (simp add: GetPathTimeObstacle_def Let_def mutate_id_present)
  from map_of_Some_index [OF r]
  show "\<exists>j < length (GetPathTimeObstacles this).
              fst (path_time_obstacle_map this ! j) = obstacle_id'
              \<and> GetPathTimeObstacles this ! j = r"
    by (auto simp: GetPathTimeObstacles_def)
next
  assume "map_of (path_time_obstacle_map this) obstacle_id' = None"
  then show "GetPathTimeObstacle obstacle_id' path_time_obstacle this = (False, path_time_obstacle, this)"
    by (simp add: GetPathTimeObstacle_def)
qed

theorem GetPathTimeObstacle_lookup_witness:
  "map_of (path_time_obstacle_map exN) ''A'' = Some regionA
   \<and> GetPathTimeObstacle ''A'' PathTimeObstacle_default exN = (True, regionA, exN)
   \<and> GetPathTimeObstacles exN = [regionA]
   \<and> map_of (path_time_obstacle_map exN) ''B'' = None
   \<and> GetPathTimeObstacle ''B'' PathTimeObstacle_default exN = (False, PathTimeObstacle_default, exN)"
proof -
  have a: "map_of (path_time_obstacle_map exN) ''A'' = Some regionA" by (simp add: exN_def)
  have b: "map_of (path_time_obstacle_map exN) ''B'' = None" by (simp add: exN_def)
  from GetPathTimeObstacle_lookup [of exN "''A''" PathTimeObstacle_default]
    GetPathTimeObstacle_lookup [of exN "''B''" PathTimeObstacle_default] a b
  show ?thesis by (simp add: GetPathTimeObstacles_def exN_def)
qed

section \<open>The corners of a region\<close>

lemma map_of_finalize:
  "map_of (map (\<lambda>(k, r). (k, finalize_bounds r)) m) k = map_option finalize_bounds (map_of m k)"
  by (induction m) auto

lemma finalize_corners [simp]:
  "bottom_left (finalize_bounds r) = bottom_left r"
  "upper_left (finalize_bounds r) = upper_left r"
  "bottom_right (finalize_bounds r) = bottom_right r"
  "upper_right (finalize_bounds r) = upper_right r"
  "obstacle_id (finalize_bounds r) = obstacle_id r"
  by (simp_all add: finalize_bounds_def Let_def)

lemma finalize_scalars:
  "path_lower (finalize_bounds r) = min (pt_s (bottom_left r)) (pt_s (upper_left r))"
  "path_upper (finalize_bounds r) = max (pt_s (bottom_right r)) (pt_s (upper_right r))"
  "time_lower (finalize_bounds r) = min (pt_t (bottom_left r)) (pt_t (upper_left r))"
  "time_upper (finalize_bounds r) = max (pt_t (bottom_right r)) (pt_t (upper_right r))"
  by (simp_all add: finalize_bounds_def Let_def)

lemma stepsA_first:
  "sample_loop_steps exL (0, 0, 0) exRL [] obstacleA 2 0 [] = (0, [(''A'', regionA)])"
  by (simp add: numeral_2_eq_2 eval_defs example_defs)

lemma stepsA_later:
  "sample_loop_steps exL (0, 0, 0) exRL [] obstacleA 3 (1/2) [(''A'', regionA)] =
   (1/2, [(''A'', regionA\<lparr>bottom_right := \<lparr>pt_s = 11, pt_t = 1/2, pt_obstacle_id = ''A''\<rparr>,
                          upper_right := \<lparr>pt_s = 13, pt_t = 1/2, pt_obstacle_id = ''A''\<rparr>\<rparr>)])"
  by (simp add: numeral_3_eq_3 eval_defs example_defs)

lemma SetupBC_A:
  "SetupObstacles exL (0, 0, 0) exRL [] [obstacleB, obstacleC] [(''A'', regionA)] =
   Some [(''A'', regionA\<lparr>path_lower := 10, path_upper := 12, time_lower := 0, time_upper := 0\<rparr>)]"
  by (simp add: SetupObstacles_def process_obstacle_def sample_loop.simps eval_defs example_defs
      finalize_bounds_def)

subsection \<open>The left corners\<close>

lemma loop_body_left_corners:
  assumes "map_of m k = Some r" "loop_body L i rl pts ob rt m = Fallthrough m'"
  shows "left_corners_kept k r m'"
proof -
  from assms(2) have rel: "\<not> sample_irrelevant L i (sl_at rl ob rt)"
    by (rule loop_body_Fallthrough_relevant)
  show ?thesis
    using assms unfolding loop_body_relevant [OF rel] left_corners_kept_def
    by (cases "k = ob_Id ob") (auto simp: mutate_map_of)
qed

lemma left_corners_kept_refl: "map_of m k = Some r \<Longrightarrow> left_corners_kept k r m"
  by (simp add: left_corners_kept_def)

lemma sample_loop_steps_left_corners:
  "map_of m k = Some r \<Longrightarrow> left_corners_kept k r (snd (sample_loop_steps L i rl pts ob n rt m))"
proof (induction n arbitrary: rt m r)
  case 0
  then show ?case by (simp add: left_corners_kept_refl)
next
  case (Suc n)
  show ?case
  proof (cases "loop_body L i rl pts ob rt m")
    case Break
    with Suc.prems show ?thesis by (simp add: left_corners_kept_refl)
  next
    case (Continue rt')
    with Suc show ?thesis by (simp add: left_corners_kept_refl)
  next
    case (Fallthrough m')
    from loop_body_left_corners [OF Suc.prems Fallthrough]
    obtain r' where r': "map_of m' k = Some r'" "bottom_left r' = bottom_left r"
        "upper_left r' = upper_left r"
      by (auto simp: left_corners_kept_def)
    from Suc.IH [OF r'(1), of rt] r'(2,3)
    have "left_corners_kept k r (snd (sample_loop_steps L i rl pts ob n rt m'))"
      by (auto simp: left_corners_kept_def)
    with Fallthrough Suc.prems show ?thesis by (simp add: left_corners_kept_refl)
  qed
qed

lemma SetupObstacles_left_corners:
  "map_of m k = Some r \<Longrightarrow> SetupObstacles L i rl pts obs m = Some m' \<Longrightarrow> left_corners_kept k r m'"
  by (auto simp: left_corners_kept_def map_of_finalize dest!: SetupObstacles_SomeD)

text \<open>
  C5. Once the map has an entry for an identifier (the first relevant sample of the obstacle
  has set its two left corners), no later pass through the loop body changes those two
  corners, at whatever time and for whatever obstacle the pass is made, the obstacle itself
  included: the entry has the same left corners after any number of passes, and after the
  rest of the build whenever the build returns.
\<close>

theorem left_corners_never_overwritten:
  assumes "map_of m k = Some r"
  shows "left_corners_kept k r
           (snd (sample_loop_steps L init_s' reference_line discretized_ref_points obstacle n relative_time m))
         \<and> (\<forall>m'. SetupObstacles L init_s' reference_line discretized_ref_points obstacles m = Some m'
                 \<longrightarrow> left_corners_kept k r m')"
  using assms by (simp add: sample_loop_steps_left_corners SetupObstacles_left_corners)

theorem left_corners_never_overwritten_witness:
  "map_of [(''A'', regionA)] ''A'' = Some regionA
   \<and> sample_loop_steps exL (0, 0, 0) exRL [] obstacleA 3 (1/2) [(''A'', regionA)] =
      (1/2, [(''A'', regionA\<lparr>bottom_right := \<lparr>pt_s = 11, pt_t = 1/2, pt_obstacle_id = ''A''\<rparr>,
                             upper_right := \<lparr>pt_s = 13, pt_t = 1/2, pt_obstacle_id = ''A''\<rparr>\<rparr>)])
   \<and> left_corners_kept ''A'' regionA
        (snd (sample_loop_steps exL (0, 0, 0) exRL [] obstacleA 3 (1/2) [(''A'', regionA)]))
   \<and> SetupObstacles exL (0, 0, 0) exRL [] [obstacleB, obstacleC] [(''A'', regionA)] =
       Some [(''A'', regionA\<lparr>path_lower := 10, path_upper := 12, time_lower := 0, time_upper := 0\<rparr>)]
   \<and> left_corners_kept ''A'' regionA
       [(''A'', regionA\<lparr>path_lower := 10, path_upper := 12, time_lower := 0, time_upper := 0\<rparr>)]"
proof -
  have h: "map_of [(''A'', regionA)] ''A'' = Some regionA" by simp
  from left_corners_never_overwritten [OF h, of exL "(0, 0, 0)" exRL "[]" obstacleA 3 "1/2"
      "[obstacleB, obstacleC]"]
  show ?thesis using stepsA_later SetupBC_A by simp
qed

subsection \<open>Times and identifiers of the corners\<close>

lemma update_set_subset: "set (AList.update k v m) \<subseteq> insert (k, v) (set m)"
  by (induction m) auto






lemma ctor_regions_ok:
  "PathTimeNeighborhood_ctor L obs i rl pts = Some N \<Longrightarrow> regions_ok (path_time_obstacle_map N)"
  by (auto simp: regions_ok_def dest!: ctor_SomeD)

lemma SetPathTimePoint_fields [simp]:
  "pt_s (SetPathTimePoint k s t) = s"
  "pt_t (SetPathTimePoint k s t) = t"
  "pt_obstacle_id (SetPathTimePoint k s t) = k"
  by (simp_all add: SetPathTimePoint_def Let_def)











subsection \<open>The scalar bounds\<close>

lemma finalize_bounds_ordered:
  "corners_ordered r \<Longrightarrow>
   path_lower (finalize_bounds r) \<le> path_upper (finalize_bounds r)
   \<and> time_lower (finalize_bounds r) \<le> time_upper (finalize_bounds r)"
  by (simp add: corners_ordered_def finalize_scalars)

text \<open>
  The entries that the sampling loop of an obstacle writes have ordered corners: started on
  a map without the obstacle, every state it reaches holds at most one new entry, with all
  four corners from one sample.
\<close>

lemma sample_loop_steps_corners_ordered:
  assumes "\<forall>(k, r) \<in> set m. corners_ordered r" "map_of m (ob_Id ob) = None"
  shows "\<forall>(k, r) \<in> set (snd (sample_loop_steps L i rl pts ob n rt m)). corners_ordered r"
proof (induction n arbitrary: rt)
  case 0
  from assms(1) show ?case by simp
next
  case (Suc n)
  show ?case
  proof (cases "rt < planned_trajectory_time L")
    case False
    with assms(1) show ?thesis by simp
  next
    case True
    show ?thesis
    proof (cases "loop_body L i rl pts ob rt m")
      case Break
      with assms(1) show ?thesis by simp
    next
      case (Continue rt')
      with True Suc [of rt'] show ?thesis by simp
    next
      case (Fallthrough m')
      then have rel: "\<not> sample_irrelevant L i (sl_at rl ob rt)"
        by (rule loop_body_Fallthrough_relevant)
      from Fallthrough assms(2) obtain v where m': "m' = AList.update (ob_Id ob) v m"
        and v: "corners_ordered v"
        unfolding loop_body_relevant [OF rel]
        by (auto simp: mutate_def corners_ordered_def SetPathTimePoint_def Let_def)
      from assms(1) v have "\<forall>(k, r) \<in> set m'. corners_ordered r"
        unfolding m' using update_set_subset [of "ob_Id ob" v m] by auto
      with sample_loop_steps_relevant [OF True Fallthrough, of n] show ?thesis by simp
    qed
  qed
qed






end
